theory Spec2Isabelle
  imports Main "HOL-Library.Word"
begin

section \<open>Data model of the identity cache (package cache)\<close>

text \<open>
  The integer types behind numeric identities are declared in the packages
  \<^verbatim>\<open>pkg/identity\<close> (\<^verbatim>\<open>type NumericIdentity uint32\<close>) and \<^verbatim>\<open>pkg/idpool\<close>
  (\<^verbatim>\<open>type ID uint64\<close>). The Go conversion \<^verbatim>\<open>identity.NumericIdentity(id)\<close>
  between the two is \<open>ucast\<close>: it keeps the low 32 bits.
\<close>

type_synonym NumericIdentity = "32 word"
type_synonym idpool_ID = "64 word"

text \<open>A label is a (key, value, source) triple; a \<^verbatim>\<open>LabelArray\<close> is a slice of
  labels and \<^verbatim>\<open>Labels\<close> is a Go map from label key to label.\<close>

record Label =
  label_Key :: string
  label_Value :: string
  label_Source :: string

type_synonym LabelArray = "Label list"
type_synonym Labels = "string \<rightharpoonup> Label"

text \<open>\<^verbatim>\<open>identity.Identity\<close>: the code of the cache reads the fields \<^verbatim>\<open>ID\<close> and
  \<^verbatim>\<open>Labels\<close> only.\<close>

record Identity =
  identity_ID :: NumericIdentity
  identity_Labels :: Labels

text \<open>\<^verbatim>\<open>type IdentityCache map[identity.NumericIdentity]labels.LabelArray\<close>\<close>

type_synonym IdentityCache = "NumericIdentity \<rightharpoonup> LabelArray"

text \<open>
  \<^verbatim>\<open>allocator.AllocatorKey\<close> is an interface value. The cache distinguishes three
  shapes by \<^verbatim>\<open>val != nil\<close> and the type assertion \<^verbatim>\<open>val.(GlobalIdentity)\<close>: the nil
  interface, a \<^verbatim>\<open>GlobalIdentity{LabelArray}\<close>, and a value of any other dynamic type
  (here tagged with a description of that value).
\<close>

datatype AllocatorKey =
  NilKey
| GlobalIdentity LabelArray
| OtherKey string

datatype EventType =
  EventTypeCreate
| EventTypeModify
| EventTypeDelete
| EventTypeListDone

text \<open>\<^verbatim>\<open>allocator.AllocatorEvent\<close>\<close>

record AllocatorEvent =
  Typ :: EventType
  ID :: idpool_ID
  Key :: AllocatorKey

text \<open>
  The distributed allocator, as far as the cache calls it: \<^verbatim>\<open>ForeachCache\<close> visits
  the cached entries in some order (the list), \<^verbatim>\<open>Get\<close> and \<^verbatim>\<open>GetByID\<close> return a
  value or an error.
\<close>

type_synonym error = string

record Allocator =
  ForeachCache :: "(idpool_ID \<times> AllocatorKey) list"
  Get :: "AllocatorKey \<Rightarrow> error + idpool_ID"
  GetByID :: "idpool_ID \<Rightarrow> error + AllocatorKey"

text \<open>The node-local identity store (\<^verbatim>\<open>localIdentityCache\<close>), as far as the cache
  calls it.\<close>

record localIdentityCache =
  local_lookup :: "Labels \<Rightarrow> Identity option"
  local_lookupByID :: "NumericIdentity \<Rightarrow> Identity option"
  local_GetIdentities :: "Identity list"

text \<open>
  \<^verbatim>\<open>CachingIdentityAllocator\<close>: both collaborators are pointers and may be nil
  (\<open>None\<close>); the code tests \<^verbatim>\<open>m.IdentityAllocator != nil\<close> and
  \<^verbatim>\<open>m.localIdentities != nil\<close> in some of its methods.
\<close>

record CachingIdentityAllocator =
  IdentityAllocator :: "Allocator option"
  localIdentities :: "localIdentityCache option"

text \<open>
  What the cache uses of the packages \<^verbatim>\<open>identity\<close>, \<^verbatim>\<open>idpool\<close> and \<^verbatim>\<open>labels\<close>, whose
  code is outside the files verified here: constants, the table of reserved
  identities (a Go map, given by its entries in the order a \<^verbatim>\<open>range\<close> visits
  them), the two reserved lookups, constructors, and the conversions
  \<^verbatim>\<open>Labels.LabelArray()\<close> and \<^verbatim>\<open>Identity.GetModel()\<close>. They are parameters of the
  model; \<open>'m\<close> is the type \<^verbatim>\<open>models.Identity\<close>.
\<close>

record 'm packages =
  IdentityUnknown :: NumericIdentity
  NoID :: idpool_ID
  ReservedIdentityCache :: "(NumericIdentity \<times> Identity) list"
  LookupReservedIdentity :: "NumericIdentity \<Rightarrow> Identity option"
  LookupReservedIdentityByLabels :: "Labels \<Rightarrow> Identity option"
  NewIdentity :: "NumericIdentity \<Rightarrow> Labels \<Rightarrow> Identity"
  NewIdentityFromLabelArray :: "NumericIdentity \<Rightarrow> LabelArray \<Rightarrow> Identity"
  NewLabel :: "string \<Rightarrow> string \<Rightarrow> string \<Rightarrow> Label"
  IDNameUnknown :: string
  LabelSourceReserved :: string
  Labels_LabelArray :: "Labels \<Rightarrow> LabelArray"
  GetModel :: "Identity \<Rightarrow> 'm"

text \<open>
  The methods of the two collaborators read the fields of their receiver, so a
  call through a nil collaborator panics; \<^verbatim>\<open>GetIdentityCache\<close> tests both
  pointers for that reason. A panic is a result of the model.
\<close>

datatype panic = NilPointerDereference


section \<open>The event watcher: collectEvent\<close>

text \<open>
  \<^verbatim>\<open>collectEvent(event, added, deleted) bool\<close> mutates the two maps in place; the
  model returns the result together with the two maps after the call.
\<close>

definition collectEvent ::
  "AllocatorEvent \<Rightarrow> IdentityCache \<Rightarrow> IdentityCache \<Rightarrow> bool \<times> IdentityCache \<times> IdentityCache"
where
  "collectEvent event added deleted =
    (let nid = (ucast (ID event) :: NumericIdentity) in
     if Typ event = EventTypeCreate then
       (case Key event of
          GlobalIdentity la \<Rightarrow>
            (let deleted = (if deleted nid \<noteq> None then deleted(nid := None) else deleted) in
             (True, added(nid \<mapsto> la), deleted))
        | _ \<Rightarrow> (False, added, deleted))
     else
       (let added = (if added nid \<noteq> None then added(nid := None) else added) in
        (True, added, deleted(nid \<mapsto> []))))"

text \<open>
  One iteration of \<^verbatim>\<open>watch\<close> calls \<^verbatim>\<open>collectEvent\<close> on the same two maps for the
  events it receives before the flush; \<open>collectEvents\<close> is that sequence of calls
  (the boolean results are dropped, as in the loop \<^verbatim>\<open>More\<close>).
\<close>

fun collectEvents ::
  "AllocatorEvent list \<Rightarrow> IdentityCache \<times> IdentityCache \<Rightarrow> IdentityCache \<times> IdentityCache"
where
  "collectEvents [] s = s"
| "collectEvents (event # events) (added, deleted) =
     (case collectEvent event added deleted of
        (_, added', deleted') \<Rightarrow> collectEvents events (added', deleted'))"

text \<open>
  The loop \<^verbatim>\<open>First\<close> of \<^verbatim>\<open>watch\<close> over the events that arrive: only create and
  delete events reach \<^verbatim>\<open>collectEvent\<close>, and the loop ends at the first one that
  \<^verbatim>\<open>collectEvent\<close> accepts. \<open>None\<close>: the channel was closed (or the watcher
  stopped) before that, and the goroutine returns without a flush.
\<close>

fun watch_First ::
  "AllocatorEvent list \<Rightarrow> IdentityCache \<Rightarrow> IdentityCache
     \<Rightarrow> (AllocatorEvent list \<times> IdentityCache \<times> IdentityCache) option"
where
  "watch_First [] added deleted = None"
| "watch_First (event # events) added deleted =
     (if Typ event = EventTypeCreate \<or> Typ event = EventTypeDelete then
        (case collectEvent event added deleted of
           (ok, added', deleted') \<Rightarrow>
             if ok then Some (events, added', deleted')
             else watch_First events added' deleted')
      else watch_First events added deleted)"

text \<open>The loop \<^verbatim>\<open>More\<close> over the events that are available without blocking.\<close>

fun watch_More ::
  "AllocatorEvent list \<Rightarrow> IdentityCache \<Rightarrow> IdentityCache \<Rightarrow> IdentityCache \<times> IdentityCache"
where
  "watch_More [] added deleted = (added, deleted)"
| "watch_More (event # events) added deleted =
     (if Typ event = EventTypeCreate \<or> Typ event = EventTypeDelete then
        (case collectEvent event added deleted of
           (_, added', deleted') \<Rightarrow> watch_More events added' deleted')
      else watch_More events added deleted)"

text \<open>
  One iteration of the outer loop of \<^verbatim>\<open>watch\<close>, given the events it receives
  before the flush: the two fresh maps, \<^verbatim>\<open>First\<close>, \<^verbatim>\<open>More\<close>, and the pair handed
  to \<^verbatim>\<open>UpdateIdentities\<close>.
\<close>

definition watch_iteration ::
  "AllocatorEvent list \<Rightarrow> (IdentityCache \<times> IdentityCache) option"
where
  "watch_iteration events =
     (case watch_First events Map.empty Map.empty of
        None \<Rightarrow> None
      | Some (rest, added, deleted) \<Rightarrow> Some (watch_More rest added deleted))"


section \<open>The read path\<close>

text \<open>\<^verbatim>\<open>GetIdentityCache\<close>: three loops that store into the same fresh map.\<close>

definition GetIdentityCache :: "'m packages \<Rightarrow> CachingIdentityAllocator \<Rightarrow> IdentityCache"
where
  "GetIdentityCache pkg m =
    (let cache = Map.empty;
         cache =
           (case IdentityAllocator m of
              Some a \<Rightarrow>
                fold (\<lambda>(aid, val) cache.
                        case val of
                          NilKey \<Rightarrow> cache
                        | GlobalIdentity la \<Rightarrow> cache((ucast aid :: NumericIdentity) \<mapsto> la)
                        | OtherKey _ \<Rightarrow> cache)
                     (ForeachCache a) cache
            | None \<Rightarrow> cache);
         cache =
           fold (\<lambda>(key, identity) cache.
                   cache(key \<mapsto> Labels_LabelArray pkg (identity_Labels identity)))
                (ReservedIdentityCache pkg) cache;
         cache =
           (case localIdentities m of
              Some l \<Rightarrow>
                fold (\<lambda>identity cache.
                        cache(identity_ID identity \<mapsto>
                                Labels_LabelArray pkg (identity_Labels identity)))
                     (local_GetIdentities l) cache
            | None \<Rightarrow> cache)
     in cache)"

text \<open>\<^verbatim>\<open>GetIdentities\<close> calls both collaborators without a nil test.\<close>

definition GetIdentities :: "'m packages \<Rightarrow> CachingIdentityAllocator \<Rightarrow> panic + 'm list"
where
  "GetIdentities pkg m =
    (case IdentityAllocator m of
       None \<Rightarrow> Inl NilPointerDereference
     | Some a \<Rightarrow>
        (let identities = [];
             identities =
               fold (\<lambda>(aid, val) identities.
                       case val of
                         GlobalIdentity la \<Rightarrow>
                           identities @
                             [GetModel pkg (NewIdentityFromLabelArray pkg (ucast aid) la)]
                       | _ \<Rightarrow> identities)
                    (ForeachCache a) identities;
             identities =
               fold (\<lambda>(_, v) identities. identities @ [GetModel pkg v])
                    (ReservedIdentityCache pkg) identities
         in case localIdentities m of
              None \<Rightarrow> Inl NilPointerDereference
            | Some l \<Rightarrow>
                Inr (fold (\<lambda>v identities. identities @ [GetModel pkg v])
                          (local_GetIdentities l) identities)))"

text \<open>\<^verbatim>\<open>LookupIdentity\<close>: \<open>Inr None\<close> is the nil result.\<close>

definition LookupIdentity ::
  "'m packages \<Rightarrow> CachingIdentityAllocator \<Rightarrow> Labels \<Rightarrow> panic + Identity option"
where
  "LookupIdentity pkg m lbls =
    (case LookupReservedIdentityByLabels pkg lbls of
       Some reservedIdentity \<Rightarrow> Inr (Some reservedIdentity)
     | None \<Rightarrow>
        (case localIdentities m of
           None \<Rightarrow> Inl NilPointerDereference
         | Some l \<Rightarrow>
            (case local_lookup l lbls of
               Some identity \<Rightarrow> Inr (Some identity)
             | None \<Rightarrow>
                (case IdentityAllocator m of
                   None \<Rightarrow> Inr None
                 | Some a \<Rightarrow>
                    (let lblArray = Labels_LabelArray pkg lbls in
                     case Get a (GlobalIdentity lblArray) of
                       Inl err \<Rightarrow> Inr None
                     | Inr aid \<Rightarrow>
                         if aid = NoID pkg then Inr None
                         else Inr (Some (NewIdentityFromLabelArray pkg
                                           (ucast aid) lblArray)))))))"

text \<open>The package variable \<^verbatim>\<open>unknownIdentity\<close>.\<close>

definition unknownIdentity :: "'m packages \<Rightarrow> Identity" where
  "unknownIdentity pkg =
     NewIdentity pkg (IdentityUnknown pkg)
       [IDNameUnknown pkg \<mapsto>
          NewLabel pkg (IDNameUnknown pkg) [] (LabelSourceReserved pkg)]"

text \<open>\<^verbatim>\<open>LookupIdentityByID\<close>: the nil test of the allocator comes before the call
  of the local store.\<close>

definition LookupIdentityByID ::
  "'m packages \<Rightarrow> CachingIdentityAllocator \<Rightarrow> NumericIdentity \<Rightarrow> panic + Identity option"
where
  "LookupIdentityByID pkg m nid =
    (if nid = IdentityUnknown pkg then Inr (Some (unknownIdentity pkg))
     else
       (case LookupReservedIdentity pkg nid of
          Some identity \<Rightarrow> Inr (Some identity)
        | None \<Rightarrow>
           (case IdentityAllocator m of
              None \<Rightarrow> Inr None
            | Some a \<Rightarrow>
               (case localIdentities m of
                  None \<Rightarrow> Inl NilPointerDereference
                | Some l \<Rightarrow>
                   (case local_lookupByID l nid of
                      Some identity \<Rightarrow> Inr (Some identity)
                    | None \<Rightarrow>
                       (case GetByID a (ucast nid) of
                          Inl err \<Rightarrow> Inr None
                        | Inr allocatorKey \<Rightarrow>
                           (case allocatorKey of
                              GlobalIdentity la \<Rightarrow>
                                Inr (Some (NewIdentityFromLabelArray pkg nid la))
                            | _ \<Rightarrow> Inr None)))))))"


section \<open>Sample inputs\<close>

text \<open>The label sets and the event sequence of the scenario
  Create(7, "app=foo"), Create(8, "app=bar"), Delete(7).\<close>

definition app_foo :: LabelArray where
  "app_foo = [\<lparr>label_Key = ''app'', label_Value = ''foo'', label_Source = ''k8s''\<rparr>]"

definition app_bar :: LabelArray where
  "app_bar = [\<lparr>label_Key = ''app'', label_Value = ''bar'', label_Source = ''k8s''\<rparr>]"

definition create_7 :: AllocatorEvent where
  "create_7 = \<lparr>Typ = EventTypeCreate, ID = 7, Key = GlobalIdentity app_foo\<rparr>"

definition create_8 :: AllocatorEvent where
  "create_8 = \<lparr>Typ = EventTypeCreate, ID = 8, Key = GlobalIdentity app_bar\<rparr>"

definition delete_7 :: AllocatorEvent where
  "delete_7 = \<lparr>Typ = EventTypeDelete, ID = 7, Key = NilKey\<rparr>"

definition example_events :: "AllocatorEvent list" where
  "example_events = [create_7, create_8, delete_7]"

text \<open>
  The configuration of the scenario "allocator cache {7: app=foo, 8: app=bar},
  reserved table {1: world}", with two entries of unrecognized type in the
  allocator cache and one CIDR identity in the node-local store.
\<close>

definition world_label :: Label where
  "world_label = \<lparr>label_Key = ''world'', label_Value = [], label_Source = ''reserved''\<rparr>"

definition world_identity :: Identity where
  "world_identity = \<lparr>identity_ID = 1, identity_Labels = [''world'' \<mapsto> world_label]\<rparr>"

definition cidr_label :: Label where
  "cidr_label = \<lparr>label_Key = ''10.0.0.0/8'', label_Value = [], label_Source = ''cidr''\<rparr>"

definition cidr_identity :: Identity where
  "cidr_identity = \<lparr>identity_ID = 16777217, identity_Labels = [''10.0.0.0/8'' \<mapsto> cidr_label]\<rparr>"

definition foo_labels :: Labels where
  "foo_labels = [''app'' \<mapsto> hd app_foo]"

definition example_LabelArray :: "Labels \<Rightarrow> LabelArray" where
  "example_LabelArray lbls = List.map_filter lbls [''10.0.0.0/8'', ''app'', ''unknown'', ''world'']"

definition example_packages :: "NumericIdentity packages" where
  "example_packages =
     \<lparr>IdentityUnknown = 0,
      NoID = 0,
      ReservedIdentityCache = [(1, world_identity)],
      LookupReservedIdentity = (\<lambda>nid. if nid = 1 then Some world_identity else None),
      LookupReservedIdentityByLabels =
        (\<lambda>lbls. if lbls ''world'' = Some world_label then Some world_identity else None),
      NewIdentity = (\<lambda>nid lbls. \<lparr>identity_ID = nid, identity_Labels = lbls\<rparr>),
      NewIdentityFromLabelArray =
        (\<lambda>nid la. \<lparr>identity_ID = nid,
                    identity_Labels = map_of (map (\<lambda>l. (label_Key l, l)) la)\<rparr>),
      NewLabel = (\<lambda>k v s. \<lparr>label_Key = k, label_Value = v, label_Source = s\<rparr>),
      IDNameUnknown = ''unknown'',
      LabelSourceReserved = ''reserved'',
      Labels_LabelArray = example_LabelArray,
      GetModel = identity_ID\<rparr>"

definition example_allocator :: Allocator where
  "example_allocator =
     \<lparr>ForeachCache =
        [(7, GlobalIdentity app_foo), (9, OtherKey ''string''),
         (8, GlobalIdentity app_bar), (10, NilKey)],
      Get = (\<lambda>k. if k = GlobalIdentity app_foo then Inr 7
                  else if k = GlobalIdentity app_bar then Inr 8
                  else Inr 0),
      GetByID = (\<lambda>aid. if aid = 7 then Inr (GlobalIdentity app_foo)
                        else if aid = 8 then Inr (GlobalIdentity app_bar)
                        else if aid = 9 then Inr (OtherKey ''string'')
                        else Inr NilKey)\<rparr>"

definition example_local :: localIdentityCache where
  "example_local =
     \<lparr>local_lookup =
        (\<lambda>lbls. if lbls ''10.0.0.0/8'' = Some cidr_label then Some cidr_identity else None),
      local_lookupByID = (\<lambda>nid. if nid = 16777217 then Some cidr_identity else None),
      local_GetIdentities = [cidr_identity]\<rparr>"

definition example_manager :: CachingIdentityAllocator where
  "example_manager =
     \<lparr>IdentityAllocator = Some example_allocator, localIdentities = Some example_local\<rparr>"

definition local_only_manager :: CachingIdentityAllocator where
  "local_only_manager = \<lparr>IdentityAllocator = None, localIdentities = Some example_local\<rparr>"


section \<open>The sources of the cache as maps\<close>

text \<open>
  For stating what \<^verbatim>\<open>GetIdentityCache\<close> returns: \<open>isGlobalIdentity\<close> is the
  result \<^verbatim>\<open>ok\<close> of the type assertion \<^verbatim>\<open>val.(GlobalIdentity)\<close>;
  \<open>allocator_entries\<close> are the recognized entries of the allocator cache, in
  the order visited; \<open>allocator_identities\<close>, \<open>reserved_identities\<close> and
  \<open>local_identities\<close> are the three sources as maps from numeric identity to
  label array (of two entries of a source with the same key, the one visited
  last). A nil collaborator contributes the empty map.
\<close>

definition isGlobalIdentity :: "AllocatorKey \<Rightarrow> bool" where
  "isGlobalIdentity val = (case val of GlobalIdentity _ \<Rightarrow> True | _ \<Rightarrow> False)"

fun allocator_entries ::
  "(idpool_ID \<times> AllocatorKey) list \<Rightarrow> (NumericIdentity \<times> LabelArray) list"
where
  "allocator_entries [] = []"
| "allocator_entries ((aid, val) # es) =
     (case val of
        GlobalIdentity la \<Rightarrow> (ucast aid, la) # allocator_entries es
      | _ \<Rightarrow> allocator_entries es)"

definition allocator_identities :: "CachingIdentityAllocator \<Rightarrow> IdentityCache" where
  "allocator_identities m =
     (case IdentityAllocator m of
        None \<Rightarrow> Map.empty
      | Some a \<Rightarrow> map_of (rev (allocator_entries (ForeachCache a))))"

definition reserved_identities :: "'m packages \<Rightarrow> IdentityCache" where
  "reserved_identities pkg =
     map_of (rev (map (\<lambda>(key, identity). (key, Labels_LabelArray pkg (identity_Labels identity)))
                      (ReservedIdentityCache pkg)))"

definition local_identities :: "'m packages \<Rightarrow> CachingIdentityAllocator \<Rightarrow> IdentityCache" where
  "local_identities pkg m =
     (case localIdentities m of
        None \<Rightarrow> Map.empty
      | Some l \<Rightarrow>
          map_of (rev (map (\<lambda>identity. (identity_ID identity,
                                          Labels_LabelArray pkg (identity_Labels identity)))
                           (local_GetIdentities l))))"

section \<open>Properties of collectEvent\<close>

text \<open>The three behaviours of one call.\<close>

lemma collectEvent_delete:
  "Typ e \<noteq> EventTypeCreate \<Longrightarrow>
     collectEvent e added deleted =
       (True, added(ucast (ID e) := None), deleted(ucast (ID e) \<mapsto> []))"
  by (auto simp: collectEvent_def Let_def)

lemma collectEvent_create:
  "Typ e = EventTypeCreate \<Longrightarrow> Key e = GlobalIdentity la \<Longrightarrow>
     collectEvent e added deleted =
       (True, added(ucast (ID e) \<mapsto> la), deleted(ucast (ID e) := None))"
  by (auto simp: collectEvent_def Let_def)

lemma collectEvent_unrecognized:
  "Typ e = EventTypeCreate \<Longrightarrow> \<forall>la. Key e \<noteq> GlobalIdentity la \<Longrightarrow>
     collectEvent e added deleted = (False, added, deleted)"
  by (auto simp: collectEvent_def Let_def split: AllocatorKey.splits)

lemma collectEvent_cases:
  obtains (create) la where "Typ e = EventTypeCreate" "Key e = GlobalIdentity la"
  | (unrecognized) "Typ e = EventTypeCreate" "\<forall>la. Key e \<noteq> GlobalIdentity la"
  | (delete) "Typ e \<noteq> EventTypeCreate"
  by (cases "Key e") auto

lemma collectEvent_disjoint:
  assumes disj: "dom added \<inter> dom deleted = {}"
    and c: "collectEvent e added deleted = (ok, added', deleted')"
  shows "dom added' \<inter> dom deleted' = {}"
proof (cases e rule: collectEvent_cases)
  case (create la)
  with c have "added' = added(ucast (ID e) \<mapsto> la)"
    and "deleted' = deleted(ucast (ID e) := None)"
    by (simp_all add: collectEvent_create)
  then have "dom added' = insert (ucast (ID e)) (dom added)"
    and "dom deleted' = dom deleted - {ucast (ID e)}"
    by simp_all
  with disj show ?thesis by blast
next
  case unrecognized
  with c disj show ?thesis by (simp add: collectEvent_unrecognized)
next
  case delete
  with c have "added' = added(ucast (ID e) := None)"
    and "deleted' = deleted(ucast (ID e) \<mapsto> [])"
    by (simp_all add: collectEvent_delete)
  then have "dom added' = dom added - {ucast (ID e)}"
    and "dom deleted' = insert (ucast (ID e)) (dom deleted)"
    by simp_all
  with disj show ?thesis by blast
qed

lemma collectEvents_disjoint:
  "dom (fst s) \<inter> dom (snd s) = {} \<Longrightarrow>
     dom (fst (collectEvents events s)) \<inter> dom (snd (collectEvents events s)) = {}"
proof (induction events arbitrary: s)
  case Nil
  then show ?case by simp
next
  case (Cons e events)
  obtain added deleted where s: "s = (added, deleted)" by (cases s)
  obtain ok added' deleted' where c: "collectEvent e added deleted = (ok, added', deleted')"
    by (cases "collectEvent e added deleted")
  from Cons.prems s c have "dom added' \<inter> dom deleted' = {}"
    using collectEvent_disjoint by simp
  then have "dom (fst (collectEvents events (added', deleted'))) \<inter>
             dom (snd (collectEvents events (added', deleted'))) = {}"
    using Cons.IH [of "(added', deleted')"] by simp
  with s c show ?case by simp
qed

lemma watch_More_disjoint:
  "dom added \<inter> dom deleted = {} \<Longrightarrow>
     dom (fst (watch_More events added deleted)) \<inter>
     dom (snd (watch_More events added deleted)) = {}"
proof (induction events arbitrary: added deleted)
  case Nil
  then show ?case by simp
next
  case (Cons e events)
  obtain ok added' deleted' where c: "collectEvent e added deleted = (ok, added', deleted')"
    by (cases "collectEvent e added deleted")
  with Cons.prems have "dom added' \<inter> dom deleted' = {}"
    using collectEvent_disjoint by blast
  with Cons c show ?case by simp
qed

lemma watch_First_disjoint:
  "dom added \<inter> dom deleted = {} \<Longrightarrow>
   watch_First events added deleted = Some (rest, added', deleted') \<Longrightarrow>
     dom added' \<inter> dom deleted' = {}"
proof (induction events arbitrary: added deleted)
  case Nil
  then show ?case by simp
next
  case (Cons e events)
  obtain ok a1 d1 where c: "collectEvent e added deleted = (ok, a1, d1)"
    by (cases "collectEvent e added deleted")
  with Cons.prems(1) have d: "dom a1 \<inter> dom d1 = {}"
    using collectEvent_disjoint by blast
  show ?case
  proof (cases "(Typ e = EventTypeCreate \<or> Typ e = EventTypeDelete) \<and> ok")
    case True
    with Cons.prems(2) c d show ?thesis by auto
  next
    case False
    with Cons.prems(2) c d Cons.IH Cons.prems(1) show ?thesis
      by (auto split: if_splits)
  qed
qed

lemma collectEvents_append:
  "collectEvents (xs @ ys) s = collectEvents ys (collectEvents xs s)"
proof (induction xs arbitrary: s)
  case Nil
  show ?case by simp
next
  case (Cons e xs)
  obtain added deleted where "s = (added, deleted)" by (cases s)
  with Cons show ?case by (simp split: prod.splits)
qed

lemma collectEvent_other:
  assumes "ucast (ID e) \<noteq> k"
    and "collectEvent e added deleted = (ok, added', deleted')"
  shows "added' k = added k \<and> deleted' k = deleted k"
proof (cases e rule: collectEvent_cases)
  case (create la)
  with assms show ?thesis by (auto simp: collectEvent_create)
next
  case unrecognized
  with assms show ?thesis by (simp add: collectEvent_unrecognized)
next
  case delete
  with assms show ?thesis by (auto simp: collectEvent_delete)
qed

lemma collectEvents_other:
  "\<forall>e \<in> set events. ucast (ID e) \<noteq> k \<Longrightarrow>
     fst (collectEvents events s) k = fst s k \<and> snd (collectEvents events s) k = snd s k"
proof (induction events arbitrary: s)
  case Nil
  show ?case by simp
next
  case (Cons e events)
  obtain added deleted where s: "s = (added, deleted)" by (cases s)
  obtain ok added' deleted' where c: "collectEvent e added deleted = (ok, added', deleted')"
    by (cases "collectEvent e added deleted")
  from Cons.prems have "ucast (ID e) \<noteq> k" by simp
  then have "added' k = added k \<and> deleted' k = deleted k"
    using c by (rule collectEvent_other)
  moreover from Cons.prems have "\<forall>e \<in> set events. ucast (ID e) \<noteq> k" by simp
  then have "fst (collectEvents events (added', deleted')) k = added' k \<and>
             snd (collectEvents events (added', deleted')) k = deleted' k"
    using Cons.IH [of "(added', deleted')"] by simp
  ultimately show ?case using s c by simp
qed

text \<open>
  C1. Whatever events \<^verbatim>\<open>collectEvent\<close> is applied to, starting from two empty
  maps, the resulting \<open>added\<close> and \<open>deleted\<close> maps have no key in common; in
  particular the pair that an iteration of \<^verbatim>\<open>watch\<close> hands to
  \<^verbatim>\<open>UpdateIdentities\<close> is disjoint.
\<close>

theorem collectEvents_added_deleted_disjoint:
  "dom (fst (collectEvents events (Map.empty, Map.empty))) \<inter>
   dom (snd (collectEvents events (Map.empty, Map.empty))) = {}
   \<and> (\<forall>added deleted. watch_iteration events = Some (added, deleted)
         \<longrightarrow> dom added \<inter> dom deleted = {})"
proof (intro conjI allI impI)
  show "dom (fst (collectEvents events (Map.empty, Map.empty))) \<inter>
        dom (snd (collectEvents events (Map.empty, Map.empty))) = {}"
    by (rule collectEvents_disjoint) simp
next
  fix added deleted
  assume w: "watch_iteration events = Some (added, deleted)"
  then obtain rest a1 d1 where f: "watch_First events Map.empty Map.empty = Some (rest, a1, d1)"
    and m: "watch_More rest a1 d1 = (added, deleted)"
    by (auto simp: watch_iteration_def split: option.splits)
  from f have "dom a1 \<inter> dom d1 = {}"
    using watch_First_disjoint [of Map.empty Map.empty] by simp
  then show "dom added \<inter> dom deleted = {}"
    using watch_More_disjoint [of a1 d1 rest] m by simp
qed

theorem collectEvents_added_deleted_disjoint_witness:
  "watch_iteration example_events = Some ([8 \<mapsto> app_bar], [7 \<mapsto> []])
   \<and> dom [8 \<mapsto> app_bar] \<inter> dom [(7::NumericIdentity) \<mapsto> ([]::LabelArray)] = {}"
proof -
  have w: "watch_iteration example_events = Some ([8 \<mapsto> app_bar], [7 \<mapsto> []])"
    by (simp add: watch_iteration_def example_events_def create_7_def create_8_def
        delete_7_def collectEvent_def fun_upd_twist)
  with collectEvents_added_deleted_disjoint [of example_events] show ?thesis by blast
qed

text \<open>
  C2. A recognized create event for an identity followed, later in the same
  batch, by a delete event for the same identity leaves the identity out of
  \<open>added\<close> and in \<open>deleted\<close> with an empty label array; this is the state
  right after the delete event (\<open>post = []\<close>) and it stays so as long as no
  later event of the batch is for that numeric identity.
\<close>

theorem create_then_delete_only_deleted:
  assumes "Typ c = EventTypeCreate" and "Key c = GlobalIdentity L" and "ID c = i"
    and "Typ d = EventTypeDelete" and "ID d = i"
    and "\<forall>e \<in> set post. (ucast (ID e) :: NumericIdentity) \<noteq> ucast i"
  shows "fst (collectEvents (pre @ [c] @ mid @ [d] @ post) (Map.empty, Map.empty)) (ucast i) = None
       \<and> snd (collectEvents (pre @ [c] @ mid @ [d] @ post) (Map.empty, Map.empty)) (ucast i) = Some []"
proof -
  let ?s = "collectEvents (pre @ [c] @ mid) (Map.empty, Map.empty)"
  obtain added deleted where s: "?s = (added, deleted)" by (cases ?s)
  have "pre @ [c] @ mid @ [d] @ post = (pre @ [c] @ mid) @ ([d] @ post)" by simp
  then have "collectEvents (pre @ [c] @ mid @ [d] @ post) (Map.empty, Map.empty)
        = collectEvents post (collectEvents [d] ?s)"
    by (simp only: collectEvents_append)
  also have "collectEvents [d] ?s = (added(ucast i := None), deleted(ucast i \<mapsto> []))"
    using assms(4,5) s by (simp add: collectEvent_delete)
  finally show ?thesis
    using collectEvents_other [OF assms(6), of "(added(ucast i := None), deleted(ucast i \<mapsto> []))"]
    by simp
qed

theorem create_then_delete_only_deleted_witness:
  "fst (collectEvents (example_events @ [create_8]) (Map.empty, Map.empty)) 7 = None
   \<and> snd (collectEvents (example_events @ [create_8]) (Map.empty, Map.empty)) 7 = Some []"
  using create_then_delete_only_deleted
    [where c = create_7 and L = app_foo and i = 7 and d = delete_7
       and pre = "[]" and mid = "[create_8]" and post = "[create_8]"]
  by (simp add: example_events_def create_7_def create_8_def delete_7_def)

text \<open>
  C3. A delete event for an identity followed, later in the same batch, by a
  recognized create event for the same identity with labels \<open>L\<close> leaves the
  identity in \<open>added\<close> with \<open>L\<close> and out of \<open>deleted\<close>; again this is the state
  right after the create event, kept as long as no later event of the batch is
  for that numeric identity.
\<close>

theorem delete_then_create_only_added:
  assumes "Typ d = EventTypeDelete" and "ID d = i"
    and "Typ c = EventTypeCreate" and "Key c = GlobalIdentity L" and "ID c = i"
    and "\<forall>e \<in> set post. (ucast (ID e) :: NumericIdentity) \<noteq> ucast i"
  shows "fst (collectEvents (pre @ [d] @ mid @ [c] @ post) (Map.empty, Map.empty)) (ucast i) = Some L
       \<and> snd (collectEvents (pre @ [d] @ mid @ [c] @ post) (Map.empty, Map.empty)) (ucast i) = None"
proof -
  let ?s = "collectEvents (pre @ [d] @ mid) (Map.empty, Map.empty)"
  obtain added deleted where s: "?s = (added, deleted)" by (cases ?s)
  have "pre @ [d] @ mid @ [c] @ post = (pre @ [d] @ mid) @ ([c] @ post)" by simp
  then have "collectEvents (pre @ [d] @ mid @ [c] @ post) (Map.empty, Map.empty)
        = collectEvents post (collectEvents [c] ?s)"
    by (simp only: collectEvents_append)
  also have "collectEvents [c] ?s = (added(ucast i \<mapsto> L), deleted(ucast i := None))"
    using assms(3,4,5) s by (simp add: collectEvent_create)
  finally show ?thesis
    using collectEvents_other [OF assms(6), of "(added(ucast i \<mapsto> L), deleted(ucast i := None))"]
    by simp
qed

theorem delete_then_create_only_added_witness:
  "fst (collectEvents [delete_7, create_8, create_7, create_8] (Map.empty, Map.empty)) 7
     = Some app_foo
   \<and> snd (collectEvents [delete_7, create_8, create_7, create_8] (Map.empty, Map.empty)) 7
     = None"
  using delete_then_create_only_added
    [where d = delete_7 and i = 7 and c = create_7 and L = app_foo
       and pre = "[]" and mid = "[create_8]" and post = "[create_8]"]
  by (simp add: create_7_def create_8_def delete_7_def)

text \<open>
  C4. A delete event is always recorded: \<^verbatim>\<open>collectEvent\<close> returns true and
  stores the identity in \<open>deleted\<close> with an empty label array, whatever the two
  maps held before; so does a batch, whatever events came earlier in it (none,
  for instance), as long as no later event is for that numeric identity.
\<close>

theorem delete_always_recorded:
  assumes "Typ d = EventTypeDelete"
    and "\<forall>e \<in> set post. (ucast (ID e) :: NumericIdentity) \<noteq> ucast (ID d)"
  shows "fst (collectEvent d added deleted)
       \<and> snd (snd (collectEvent d added deleted)) (ucast (ID d)) = Some []
       \<and> snd (collectEvents (pre @ [d] @ post) (Map.empty, Map.empty)) (ucast (ID d)) = Some []"
proof -
  let ?s = "collectEvents pre (Map.empty, Map.empty)"
  obtain a b where s: "?s = (a, b)" by (cases ?s)
  have "collectEvents (pre @ [d] @ post) (Map.empty, Map.empty)
        = collectEvents post (collectEvents [d] ?s)"
    by (simp only: collectEvents_append)
  also have "collectEvents [d] ?s = (a(ucast (ID d) := None), b(ucast (ID d) \<mapsto> []))"
    using assms(1) s by (simp add: collectEvent_delete)
  finally have "snd (collectEvents (pre @ [d] @ post) (Map.empty, Map.empty)) (ucast (ID d)) = Some []"
    using collectEvents_other [OF assms(2), of "(a(ucast (ID d) := None), b(ucast (ID d) \<mapsto> []))"]
    by simp
  with assms(1) show ?thesis by (simp add: collectEvent_delete)
qed

theorem delete_always_recorded_witness:
  "fst (collectEvent delete_7 Map.empty Map.empty)
   \<and> snd (snd (collectEvent delete_7 Map.empty Map.empty)) 7 = Some []
   \<and> snd (collectEvents [delete_7, create_8] (Map.empty, Map.empty)) 7 = Some []"
  using delete_always_recorded
    [where d = delete_7 and pre = "[]" and post = "[create_8]"
       and added = Map.empty and deleted = Map.empty]
  by (simp add: delete_7_def create_8_def)

section \<open>Properties of the read path\<close>

text \<open>Each of the three loops of \<^verbatim>\<open>GetIdentityCache\<close> adds a map on the right.\<close>

lemma fold_store:
  "fold (\<lambda>x cache. cache(kf x \<mapsto> vf x)) xs cache =
     cache ++ map_of (rev (map (\<lambda>x. (kf x, vf x)) xs))"
proof (induction xs arbitrary: cache)
  case Nil
  show ?case by simp
next
  case (Cons x xs)
  have "cache(kf x \<mapsto> vf x) ++ map_of (rev (map (\<lambda>x. (kf x, vf x)) xs))
        = cache ++ map_of (rev (map (\<lambda>x. (kf x, vf x)) xs) @ [(kf x, vf x)])"
    by (rule ext) (simp add: map_add_def split: option.splits)
  with Cons show ?case by (simp del: fun_upd_apply)
qed

lemma fold_allocator:
  "fold (\<lambda>(aid, val) cache.
           case val of
             NilKey \<Rightarrow> cache
           | GlobalIdentity la \<Rightarrow> cache((ucast aid :: NumericIdentity) \<mapsto> la)
           | OtherKey _ \<Rightarrow> cache) es cache =
     cache ++ map_of (rev (allocator_entries es))"
proof (induction es arbitrary: cache)
  case Nil
  show ?case by simp
next
  case (Cons e es)
  obtain aid val where e: "e = (aid, val)" by (cases e)
  show ?case
  proof (cases val)
    case (GlobalIdentity la)
    have "cache(ucast aid \<mapsto> la) ++ map_of (rev (allocator_entries es))
          = cache ++ map_of (rev (allocator_entries es) @ [(ucast aid, la)])"
      by (rule ext) (simp add: map_add_def split: option.splits)
    with Cons e GlobalIdentity show ?thesis by (simp del: fun_upd_apply)
  qed (use Cons e in \<open>simp_all del: fun_upd_apply\<close>)
qed

lemma GetIdentityCache_eq:
  "GetIdentityCache pkg m =
     allocator_identities m ++ reserved_identities pkg ++ local_identities pkg m"
proof -
  have r: "\<And>cache. fold (\<lambda>(key, identity) cache.
                   cache(key \<mapsto> Labels_LabelArray pkg (identity_Labels identity)))
                (ReservedIdentityCache pkg) cache = cache ++ reserved_identities pkg"
    using fold_store [where kf = fst
        and vf = "\<lambda>x. Labels_LabelArray pkg (identity_Labels (snd x))"]
    by (simp add: reserved_identities_def case_prod_unfold)
  show ?thesis
    by (cases "IdentityAllocator m"; cases "localIdentities m")
       (simp_all add: GetIdentityCache_def r fold_allocator fold_store
          allocator_identities_def local_identities_def)
qed

lemma dom_allocator_entries:
  "fst ` set (allocator_entries es) = {ucast aid | aid la. (aid, GlobalIdentity la) \<in> set es}"
proof (induction es)
  case Nil
  show ?case by simp
next
  case (Cons e es)
  obtain aid val where e: "e = (aid, val)" by (cases e)
  from Cons show ?case unfolding e by (cases val) auto
qed

lemma allocator_entries_filter:
  "allocator_entries (filter (\<lambda>(aid, val). isGlobalIdentity val) es) = allocator_entries es"
proof (induction es)
  case Nil
  show ?case by simp
next
  case (Cons e es)
  obtain aid val where e: "e = (aid, val)" by (cases e)
  from Cons show ?case unfolding e by (cases val) (simp_all add: isGlobalIdentity_def)
qed

lemmas example_defs =
  example_packages_def example_allocator_def example_local_def example_manager_def
  local_only_manager_def example_LabelArray_def world_identity_def cidr_identity_def
  world_label_def cidr_label_def foo_labels_def app_foo_def app_bar_def

text \<open>
  C5. The claim says that \<^verbatim>\<open>LookupIdentityByID\<close> still consults the node-local
  store when the distributed allocator is nil. The code returns nil before it
  reaches the local store: for the CIDR identity 16777217, which the local
  store holds, the lookup with a nil allocator is not-found, while the same
  lookup with an allocator configured returns the local identity.
\<close>

theorem LookupIdentityByID_nil_allocator_skips_local_store:
  "local_lookupByID example_local 16777217 = Some cidr_identity
   \<and> LookupIdentityByID example_packages local_only_manager 16777217 = Inr None
   \<and> LookupIdentityByID example_packages example_manager 16777217 = Inr (Some cidr_identity)"
  by (simp add: LookupIdentityByID_def example_packages_def example_local_def
      local_only_manager_def example_manager_def)

text \<open>
  C6. With a nil distributed allocator, \<^verbatim>\<open>GetIdentityCache\<close> returns the
  reserved identities overlaid with the node-local identities, each mapped to
  its label array: its keys are exactly the reserved keys and the local ids. A
  nil local store contributes nothing. The function has no error result and no
  call through a nil pointer, so the result is always a cache.
\<close>

theorem GetIdentityCache_without_allocator:
  assumes "IdentityAllocator m = None"
  shows "GetIdentityCache pkg m = reserved_identities pkg ++ local_identities pkg m
       \<and> dom (GetIdentityCache pkg m) =
           fst ` set (ReservedIdentityCache pkg) \<union>
           (case localIdentities m of
              None \<Rightarrow> {}
            | Some l \<Rightarrow> identity_ID ` set (local_GetIdentities l))"
proof -
  have eq: "GetIdentityCache pkg m = reserved_identities pkg ++ local_identities pkg m"
    using assms by (simp add: GetIdentityCache_eq allocator_identities_def)
  have "dom (reserved_identities pkg) = fst ` set (ReservedIdentityCache pkg)"
    by (force simp: reserved_identities_def dom_map_of_conv_image_fst)
  moreover have "dom (local_identities pkg m) =
      (case localIdentities m of None \<Rightarrow> {} | Some l \<Rightarrow> identity_ID ` set (local_GetIdentities l))"
    by (force simp: local_identities_def dom_map_of_conv_image_fst split: option.splits)
  ultimately show ?thesis using eq by (simp add: Un_commute)
qed

theorem GetIdentityCache_without_allocator_witness:
  "GetIdentityCache example_packages local_only_manager 1 = Some [world_label]
   \<and> GetIdentityCache example_packages local_only_manager 16777217 = Some [cidr_label]
   \<and> dom (GetIdentityCache example_packages local_only_manager) = {1, 16777217}"
proof -
  have "IdentityAllocator local_only_manager = None"
    by (simp add: local_only_manager_def)
  from GetIdentityCache_without_allocator [OF this, of example_packages] show ?thesis
    by (simp add: reserved_identities_def local_identities_def example_defs insert_commute)
qed

text \<open>
  C7. \<^verbatim>\<open>LookupIdentity\<close> answers from the reserved table first: a reserved hit
  is returned whatever the node-local store and the distributed allocator are.
  When the node-local store is configured, the lookup then answers from the
  local store, then from the distributed allocator: a local hit is returned
  whatever the allocator holds, and after two misses a nil allocator, an
  allocator error and the answer \<^verbatim>\<open>NoID\<close> all give nil; any other answer gives
  the identity built from it; and no case panics.
\<close>

theorem LookupIdentity_resolution_order:
  "(\<forall>r. LookupReservedIdentityByLabels pkg lbls = Some r \<longrightarrow>
      LookupIdentity pkg m lbls = Inr (Some r))
   \<and> (\<forall>l. localIdentities m = Some l \<longrightarrow>
        (\<forall>i. LookupReservedIdentityByLabels pkg lbls = None \<and> local_lookup l lbls = Some i \<longrightarrow>
           LookupIdentity pkg m lbls = Inr (Some i))
      \<and> (LookupReservedIdentityByLabels pkg lbls = None \<and> local_lookup l lbls = None \<longrightarrow>
           (IdentityAllocator m = None \<longrightarrow> LookupIdentity pkg m lbls = Inr None)
         \<and> (\<forall>a. IdentityAllocator m = Some a \<longrightarrow>
              (\<forall>err. Get a (GlobalIdentity (Labels_LabelArray pkg lbls)) = Inl err \<longrightarrow>
                 LookupIdentity pkg m lbls = Inr None)
            \<and> (Get a (GlobalIdentity (Labels_LabelArray pkg lbls)) = Inr (NoID pkg) \<longrightarrow>
                 LookupIdentity pkg m lbls = Inr None)
            \<and> (\<forall>aid. Get a (GlobalIdentity (Labels_LabelArray pkg lbls)) = Inr aid \<and>
                   aid \<noteq> NoID pkg \<longrightarrow>
                 LookupIdentity pkg m lbls =
                   Inr (Some (NewIdentityFromLabelArray pkg (ucast aid)
                                (Labels_LabelArray pkg lbls))))))
      \<and> (\<forall>p. LookupIdentity pkg m lbls \<noteq> Inl p))"
  by (auto simp: LookupIdentity_def Let_def split: option.splits sum.splits)

theorem LookupIdentity_resolution_order_witness:
  "LookupIdentity example_packages example_manager foo_labels =
     Inr (Some (NewIdentityFromLabelArray example_packages 7 app_foo))
   \<and> LookupIdentity example_packages local_only_manager foo_labels = Inr None
   \<and> LookupIdentity example_packages example_manager Map.empty = Inr None
   \<and> LookupIdentity example_packages local_only_manager [''world'' \<mapsto> world_label] =
       Inr (Some world_identity)
   \<and> LookupIdentity example_packages \<lparr>IdentityAllocator = None, localIdentities = None\<rparr>
         [''world'' \<mapsto> world_label] =
       Inr (Some world_identity)
   \<and> LookupIdentity example_packages local_only_manager [''10.0.0.0/8'' \<mapsto> cidr_label] =
       Inr (Some cidr_identity)"
proof -
  have la: "Labels_LabelArray example_packages foo_labels = app_foo"
    "Labels_LabelArray example_packages Map.empty = []"
    by (simp_all add: example_packages_def example_LabelArray_def foo_labels_def app_foo_def)
  have m: "localIdentities example_manager = Some example_local"
    "localIdentities local_only_manager = Some example_local"
    "IdentityAllocator example_manager = Some example_allocator"
    "IdentityAllocator local_only_manager = None"
    by (simp_all add: example_manager_def local_only_manager_def)
  have r: "LookupReservedIdentityByLabels example_packages foo_labels = None"
    "LookupReservedIdentityByLabels example_packages Map.empty = None"
    "LookupReservedIdentityByLabels example_packages [''world'' \<mapsto> world_label] = Some world_identity"
    "LookupReservedIdentityByLabels example_packages [''10.0.0.0/8'' \<mapsto> cidr_label] = None"
    by (simp_all add: example_packages_def foo_labels_def)
  have l: "local_lookup example_local foo_labels = None"
    "local_lookup example_local Map.empty = None"
    "local_lookup example_local [''10.0.0.0/8'' \<mapsto> cidr_label] = Some cidr_identity"
    by (simp_all add: example_local_def foo_labels_def)
  have g: "Get example_allocator (GlobalIdentity app_foo) = Inr 7"
    "Get example_allocator (GlobalIdentity []) = Inr (NoID example_packages)"
    "(7 :: idpool_ID) \<noteq> NoID example_packages"
    by (simp_all add: example_allocator_def example_packages_def app_foo_def app_bar_def)
  show ?thesis
    using LookupIdentity_resolution_order [of example_packages foo_labels example_manager]
      LookupIdentity_resolution_order [of example_packages foo_labels local_only_manager]
      LookupIdentity_resolution_order [of example_packages Map.empty example_manager]
      LookupIdentity_resolution_order
        [of example_packages "[''world'' \<mapsto> world_label]" local_only_manager]
      LookupIdentity_resolution_order
        [of example_packages "[''world'' \<mapsto> world_label]"
           "\<lparr>IdentityAllocator = None, localIdentities = None\<rparr>"]
      LookupIdentity_resolution_order
        [of example_packages "[''10.0.0.0/8'' \<mapsto> cidr_label]" local_only_manager]
    by (simp add: la m r l g)
qed

text \<open>
  \<^verbatim>\<open>LookupIdentity\<close> calls \<^verbatim>\<open>m.localIdentities.lookup\<close> with no nil test, before
  its test of the allocator: on a manager whose allocator and local store are
  both nil, a label set that is not reserved gives a panic, not nil.
\<close>

theorem LookupIdentity_nil_local_store_panics:
  "IdentityAllocator \<lparr>IdentityAllocator = None, localIdentities = None\<rparr> = None
   \<and> LookupIdentity example_packages \<lparr>IdentityAllocator = None, localIdentities = None\<rparr>
         foo_labels = Inl NilPointerDereference
   \<and> LookupIdentity example_packages \<lparr>IdentityAllocator = None, localIdentities = None\<rparr>
         foo_labels \<noteq> Inr None"
  by (simp add: LookupIdentity_def example_packages_def foo_labels_def)

text \<open>
  C8. \<^verbatim>\<open>LookupIdentityByID\<close> of \<^verbatim>\<open>IdentityUnknown\<close> returns the package variable
  \<^verbatim>\<open>unknownIdentity\<close>, whatever the allocator, the local store (\<open>m\<close>, nil or
  not) and the reserved table (\<open>rc\<close>, \<open>lr\<close>, \<open>lrl\<close>) are.
\<close>

theorem LookupIdentityByID_unknown:
  "LookupIdentityByID
     (pkg\<lparr>ReservedIdentityCache := rc, LookupReservedIdentity := lr,
          LookupReservedIdentityByLabels := lrl\<rparr>)
     m (IdentityUnknown pkg) = Inr (Some (unknownIdentity pkg))"
  by (simp add: LookupIdentityByID_def unknownIdentity_def)

text \<open>
  C9. An entry of the allocator cache whose value is not a \<^verbatim>\<open>GlobalIdentity\<close>
  changes nothing: \<^verbatim>\<open>GetIdentityCache\<close> returns what it returns on the allocator
  cache without those entries. The result holds every recognized entry, every
  reserved identity and every local identity with its label array: it is the
  map of the recognized entries, overlaid with the reserved identities, overlaid
  with the local identities, and its keys are exactly the ids of the recognized
  entries, the reserved keys and the local ids.
\<close>

theorem GetIdentityCache_skips_unrecognized:
  assumes "IdentityAllocator m = Some a"
  shows "GetIdentityCache pkg m =
           GetIdentityCache pkg
             (m\<lparr>IdentityAllocator :=
                  Some (a\<lparr>ForeachCache :=
                            filter (\<lambda>(aid, val). isGlobalIdentity val) (ForeachCache a)\<rparr>)\<rparr>)
       \<and> dom (GetIdentityCache pkg m) =
           {ucast aid | aid la. (aid, GlobalIdentity la) \<in> set (ForeachCache a)} \<union>
           fst ` set (ReservedIdentityCache pkg) \<union>
           (case localIdentities m of
              None \<Rightarrow> {}
            | Some l \<Rightarrow> identity_ID ` set (local_GetIdentities l))
       \<and> GetIdentityCache pkg m =
           map_of (rev (allocator_entries (ForeachCache a))) ++
           reserved_identities pkg ++ local_identities pkg m
       \<and> (\<forall>k. GetIdentityCache pkg m k =
             (case local_identities pkg m k of
                Some la \<Rightarrow> Some la
              | None \<Rightarrow>
                 (case reserved_identities pkg k of
                    Some la \<Rightarrow> Some la
                  | None \<Rightarrow> map_of (rev (allocator_entries (ForeachCache a))) k)))"
proof (intro conjI)
  show "GetIdentityCache pkg m =
           GetIdentityCache pkg
             (m\<lparr>IdentityAllocator :=
                  Some (a\<lparr>ForeachCache :=
                            filter (\<lambda>(aid, val). isGlobalIdentity val) (ForeachCache a)\<rparr>)\<rparr>)"
    using assms
    by (simp add: GetIdentityCache_eq allocator_identities_def local_identities_def
        allocator_entries_filter)
next
  have A: "dom (allocator_identities m) =
      {ucast aid | aid la. (aid, GlobalIdentity la) \<in> set (ForeachCache a)}"
    using assms
    by (simp add: allocator_identities_def dom_map_of_conv_image_fst dom_allocator_entries)
  have R: "dom (reserved_identities pkg) = fst ` set (ReservedIdentityCache pkg)"
    by (force simp: reserved_identities_def dom_map_of_conv_image_fst)
  have L: "dom (local_identities pkg m) =
      (case localIdentities m of None \<Rightarrow> {} | Some l \<Rightarrow> identity_ID ` set (local_GetIdentities l))"
    by (force simp: local_identities_def dom_map_of_conv_image_fst split: option.splits)
  show "dom (GetIdentityCache pkg m) =
           {ucast aid | aid la. (aid, GlobalIdentity la) \<in> set (ForeachCache a)} \<union>
           fst ` set (ReservedIdentityCache pkg) \<union>
           (case localIdentities m of
              None \<Rightarrow> {}
            | Some l \<Rightarrow> identity_ID ` set (local_GetIdentities l))"
    unfolding GetIdentityCache_eq dom_map_add A R L by (simp only: Un_ac)
next
  show eq: "GetIdentityCache pkg m =
           map_of (rev (allocator_entries (ForeachCache a))) ++
           reserved_identities pkg ++ local_identities pkg m"
    using assms by (simp add: GetIdentityCache_eq allocator_identities_def)
  show "\<forall>k. GetIdentityCache pkg m k =
             (case local_identities pkg m k of
                Some la \<Rightarrow> Some la
              | None \<Rightarrow>
                 (case reserved_identities pkg k of
                    Some la \<Rightarrow> Some la
                  | None \<Rightarrow> map_of (rev (allocator_entries (ForeachCache a))) k))"
    unfolding eq by (simp add: map_add_def split: option.splits)
qed

theorem GetIdentityCache_skips_unrecognized_witness:
  "GetIdentityCache example_packages example_manager =
     GetIdentityCache example_packages
       \<lparr>IdentityAllocator =
          Some (example_allocator
                  \<lparr>ForeachCache := [(7, GlobalIdentity app_foo), (8, GlobalIdentity app_bar)]\<rparr>),
        localIdentities = Some example_local\<rparr>
   \<and> dom (GetIdentityCache example_packages example_manager) = {7, 8, 1, 16777217}
   \<and> GetIdentityCache example_packages example_manager 7 = Some app_foo
   \<and> GetIdentityCache example_packages example_manager 8 = Some app_bar
   \<and> GetIdentityCache example_packages example_manager 1 = Some [world_label]
   \<and> GetIdentityCache example_packages example_manager 16777217 = Some [cidr_label]
   \<and> GetIdentityCache example_packages example_manager 9 = None
   \<and> GetIdentityCache example_packages example_manager 10 = None"
proof -
  have a: "IdentityAllocator example_manager = Some example_allocator"
    by (simp add: example_manager_def)
  note t = GetIdentityCache_skips_unrecognized [OF a, of example_packages]
  have c: "{ucast aid | aid la. (aid, GlobalIdentity la) \<in> set (ForeachCache example_allocator)}
      = {7, 8 :: NumericIdentity}"
  proof -
    have "fst ` set (allocator_entries (ForeachCache example_allocator)) =
        {7, 8 :: NumericIdentity}"
      by (simp add: example_allocator_def)
    then show ?thesis by (simp only: dom_allocator_entries)
  qed
  have f: "filter (\<lambda>(aid, val). isGlobalIdentity val) (ForeachCache example_allocator)
      = [(7, GlobalIdentity app_foo), (8, GlobalIdentity app_bar)]"
    by (simp add: example_allocator_def isGlobalIdentity_def)
  have u: "example_manager\<lparr>IdentityAllocator :=
        Some (example_allocator
                \<lparr>ForeachCache := [(7, GlobalIdentity app_foo), (8, GlobalIdentity app_bar)]\<rparr>)\<rparr>
      = \<lparr>IdentityAllocator =
          Some (example_allocator
                  \<lparr>ForeachCache := [(7, GlobalIdentity app_foo), (8, GlobalIdentity app_bar)]\<rparr>),
         localIdentities = Some example_local\<rparr>"
    by (simp add: example_manager_def)
  have r: "fst ` set (ReservedIdentityCache example_packages) = {1}"
    by (simp add: example_packages_def)
  have l: "(case localIdentities example_manager of
              None \<Rightarrow> {}
            | Some l \<Rightarrow> identity_ID ` set (local_GetIdentities l)) = {16777217}"
    by (simp add: example_manager_def example_local_def cidr_identity_def)
  have s: "{7, 8} \<union> {1} \<union> {16777217} = {7, 8, 1, 16777217 :: NumericIdentity}"
    by blast
  have 1: "GetIdentityCache example_packages example_manager =
     GetIdentityCache example_packages
       \<lparr>IdentityAllocator =
          Some (example_allocator
                  \<lparr>ForeachCache := [(7, GlobalIdentity app_foo), (8, GlobalIdentity app_bar)]\<rparr>),
        localIdentities = Some example_local\<rparr>"
    and 2: "dom (GetIdentityCache example_packages example_manager) = {7, 8, 1, 16777217}"
    using t unfolding c f u r l s by blast+
  have v: "local_identities example_packages example_manager = [16777217 \<mapsto> [cidr_label]]"
    "reserved_identities example_packages = [1 \<mapsto> [world_label]]"
    "map_of (rev (allocator_entries (ForeachCache example_allocator))) =
       [7 \<mapsto> app_foo, 8 \<mapsto> app_bar]"
    by (simp_all add: local_identities_def reserved_identities_def example_defs)
  from t have p: "\<And>k. GetIdentityCache example_packages example_manager k =
      (case [16777217 \<mapsto> [cidr_label]] k of
         Some la \<Rightarrow> Some la
       | None \<Rightarrow>
          (case [1 \<mapsto> [world_label]] k of
             Some la \<Rightarrow> Some la
           | None \<Rightarrow> [7 \<mapsto> app_foo, 8 \<mapsto> app_bar] k))"
    unfolding v by blast
  have 3: "GetIdentityCache example_packages example_manager 7 = Some app_foo"
    "GetIdentityCache example_packages example_manager 8 = Some app_bar"
    "GetIdentityCache example_packages example_manager 1 = Some [world_label]"
    "GetIdentityCache example_packages example_manager 16777217 = Some [cidr_label]"
    "GetIdentityCache example_packages example_manager 9 = None"
    "GetIdentityCache example_packages example_manager 10 = None"
    by (simp_all add: p)
  show ?thesis
    by (intro conjI 1 2 3)
qed

text \<open>
  C10. \<^verbatim>\<open>GetIdentities\<close> panics when the distributed allocator or the node-local
  store is nil, and returns a list when both are configured;
  \<^verbatim>\<open>GetIdentityCache\<close> with both nil returns the reserved identities.
\<close>

theorem GetIdentities_nil_collaborator_panics:
  "(IdentityAllocator m = None \<or> localIdentities m = None \<longrightarrow>
      GetIdentities pkg m = Inl NilPointerDereference)
   \<and> (IdentityAllocator m \<noteq> None \<and> localIdentities m \<noteq> None \<longrightarrow>
      (\<exists>identities. GetIdentities pkg m = Inr identities))
   \<and> (IdentityAllocator m = None \<and> localIdentities m = None \<longrightarrow>
      GetIdentityCache pkg m = reserved_identities pkg)"
  by (auto simp: GetIdentities_def Let_def GetIdentityCache_eq allocator_identities_def
      local_identities_def split: option.splits)

theorem GetIdentities_nil_collaborator_panics_witness:
  "GetIdentities example_packages local_only_manager = Inl NilPointerDereference
   \<and> GetIdentities example_packages
       \<lparr>IdentityAllocator = Some example_allocator, localIdentities = None\<rparr> =
       Inl NilPointerDereference
   \<and> GetIdentities example_packages example_manager = Inr [7, 8, 1, 16777217]
   \<and> GetIdentityCache example_packages \<lparr>IdentityAllocator = None, localIdentities = None\<rparr> =
       reserved_identities example_packages"
proof -
  have "GetIdentities example_packages example_manager = Inr [7, 8, 1, 16777217]"
    by (simp add: GetIdentities_def example_defs)
  then show ?thesis
    using GetIdentities_nil_collaborator_panics [of local_only_manager example_packages]
      GetIdentities_nil_collaborator_panics [of "\<lparr>IdentityAllocator = Some example_allocator, localIdentities = None\<rparr>"
        example_packages]
      GetIdentities_nil_collaborator_panics [of "\<lparr>IdentityAllocator = None, localIdentities = None\<rparr>" example_packages]
    by (simp add: local_only_manager_def)
qed

end
